theory Spec2Isabelle
  imports Main
begin

section \<open>JavaScript strings and numbers\<close>

text \<open>
  A JavaScript string is a sequence of UTF-16 code units. The model uses \<^typ>\<open>string\<close>
  and reads each \<^typ>\<open>char\<close> as one code unit in the range U+0000 .. U+00FF, which
  holds every character of the program's own literals (\<open>CHR 0xED\<close> is the i-acute of
  the finger labels). Lengths therefore count what \<open>padStart\<close> and \<open>slice\<close> count.
  Numbers are modelled as \<^typ>\<open>int\<close>: finger codes and patient ids are integers.
  A JavaScript number is a double, so a sum of integers is exact only up to \<open>2 ^ 53\<close>;
  \<open>number_add_one\<close> below is the \<open>+ 1\<close> of the store's id allocation with that rounding.
\<close>

definition padStart :: "nat \<Rightarrow> char \<Rightarrow> string \<Rightarrow> string" where
  \<comment> \<open>\<open>s.padStart(n, c)\<close> for a one-character pad string\<close>
  "padStart n c s = replicate (n - length s) c @ s"

definition slice_last :: "nat \<Rightarrow> string \<Rightarrow> string" where
  \<comment> \<open>\<open>s.slice(-n)\<close>: the last \<open>n\<close> code units, the whole string when it is shorter\<close>
  "slice_last n s = drop (length s - n) s"

definition strip_leading_zeros :: "string \<Rightarrow> string" where
  \<comment> \<open>\<open>s.replace(/^0+/, "")\<close>\<close>
  "strip_leading_zeros s = dropWhile (\<lambda>c. c = CHR ''0'') s"

fun js_includes :: "string \<Rightarrow> string \<Rightarrow> bool" where
  \<comment> \<open>\<open>s.includes(t)\<close>: \<open>t\<close> occurs in \<open>s\<close> as a contiguous substring\<close>
  "js_includes [] t = (t = [])"
| "js_includes (c # s) t = (take (length t) (c # s) = t \<or> js_includes s t)"

definition upper_letters :: string where
  "upper_letters = ''ABCDEFGHIJKLMNOPQRSTUVWXYZ'' @
     [CHR 0xC0, CHR 0xC1, CHR 0xC2, CHR 0xC3, CHR 0xC4, CHR 0xC5, CHR 0xC6, CHR 0xC7,
      CHR 0xC8, CHR 0xC9, CHR 0xCA, CHR 0xCB, CHR 0xCC, CHR 0xCD, CHR 0xCE, CHR 0xCF,
      CHR 0xD0, CHR 0xD1, CHR 0xD2, CHR 0xD3, CHR 0xD4, CHR 0xD5, CHR 0xD6,
      CHR 0xD8, CHR 0xD9, CHR 0xDA, CHR 0xDB, CHR 0xDC, CHR 0xDD, CHR 0xDE]"

definition lower_letters :: string where
  "lower_letters = ''abcdefghijklmnopqrstuvwxyz'' @
     [CHR 0xE0, CHR 0xE1, CHR 0xE2, CHR 0xE3, CHR 0xE4, CHR 0xE5, CHR 0xE6, CHR 0xE7,
      CHR 0xE8, CHR 0xE9, CHR 0xEA, CHR 0xEB, CHR 0xEC, CHR 0xED, CHR 0xEE, CHR 0xEF,
      CHR 0xF0, CHR 0xF1, CHR 0xF2, CHR 0xF3, CHR 0xF4, CHR 0xF5, CHR 0xF6,
      CHR 0xF8, CHR 0xF9, CHR 0xFA, CHR 0xFB, CHR 0xFC, CHR 0xFD, CHR 0xFE]"

definition lower_char :: "char \<Rightarrow> char" where
  "lower_char c = (case map_of (zip upper_letters lower_letters) c of Some l \<Rightarrow> l | None \<Rightarrow> c)"

definition toLowerCase :: "string \<Rightarrow> string" where
  \<comment> \<open>\<open>s.toLowerCase()\<close> on the code units U+0000 .. U+00FF\<close>
  "toLowerCase s = map lower_char s"

definition is_space :: "char \<Rightarrow> bool" where
  \<comment> \<open>the white space and line terminators of \<open>\s\<close> and \<open>trim\<close> below U+0100\<close>
  "is_space c = (c \<in> set [CHR 0x09, CHR 0x0A, CHR 0x0B, CHR 0x0C, CHR 0x0D, CHR 0x20, CHR 0xA0])"

definition trim :: "string \<Rightarrow> string" where
  \<comment> \<open>\<open>s.trim()\<close>\<close>
  "trim s = rev (dropWhile is_space (rev (dropWhile is_space s)))"

definition remove_whitespace :: "string \<Rightarrow> string" where
  \<comment> \<open>\<open>s.replace(/\s+/g, "")\<close>\<close>
  "remove_whitespace s = filter (\<lambda>c. \<not> is_space c) s"

fun split_on :: "char \<Rightarrow> string \<Rightarrow> string list" where
  \<comment> \<open>\<open>s.split(c)\<close> for a one-character separator: always at least one part\<close>
  "split_on c [] = [[]]"
| "split_on c (x # xs) =
     (if x = c then [] # split_on c xs
      else (case split_on c xs of p # ps \<Rightarrow> (x # p) # ps | [] \<Rightarrow> [[x]]))"

fun nat_to_string :: "nat \<Rightarrow> string" where
  "nat_to_string n =
     (if n < 10 then [''0123456789'' ! n]
      else nat_to_string (n div 10) @ [''0123456789'' ! (n mod 10)])"

definition number_to_string :: "int \<Rightarrow> string" where
  \<comment> \<open>\<open>String(n)\<close> and \<open>`${n}`\<close> for an integer \<open>n\<close>\<close>
  "number_to_string n =
     (if n < 0 then CHR ''-'' # nat_to_string (nat (- n)) else nat_to_string (nat n))"

text \<open>
  Truthiness and the operator \<open>||\<close> on optional values. \<open>None\<close> stands for a property
  that is absent, \<open>undefined\<close> or \<open>null\<close>.
\<close>

definition truthy :: "string option \<Rightarrow> bool" where
  "truthy v = (case v of None \<Rightarrow> False | Some s \<Rightarrow> s \<noteq> [])"

fun first_truthy :: "string option list \<Rightarrow> string \<Rightarrow> string" where
  \<comment> \<open>\<open>a || b || ... || dflt\<close> over string-valued properties\<close>
  "first_truthy [] dflt = dflt"
| "first_truthy (v # vs) dflt = (case v of Some (c # s) \<Rightarrow> c # s | _ \<Rightarrow> first_truthy vs dflt)"

fun first_truthy_num :: "int option list \<Rightarrow> int \<Rightarrow> int" where
  \<comment> \<open>\<open>a || b || ... || dflt\<close> over number-valued properties: \<open>0\<close> is falsy\<close>
  "first_truthy_num [] dflt = dflt"
| "first_truthy_num (v # vs) dflt =
     (case v of Some n \<Rightarrow> (if n \<noteq> 0 then n else first_truthy_num vs dflt)
      | None \<Rightarrow> first_truthy_num vs dflt)"

section \<open>Identifier canonicalisation\<close>

definition directoryQueryId :: "string \<Rightarrow> string" where
  \<comment> \<open>\<open>numericCard\<close> of \<open>getBeneficiaryDetails\<close>: \<open>cardNumber.slice(-13).replace(/^0+/, "")\<close>\<close>
  "directoryQueryId cardNumber = strip_leading_zeros (slice_last 13 cardNumber)"

definition canonicalWallet :: "string \<Rightarrow> string \<Rightarrow> string" where
  \<comment> \<open>\<open>`${healthInsurer.padStart(4,'0')}${cardNumber.padStart(13,'0')}`\<close>\<close>
  "canonicalWallet healthInsurer cardNumber =
     padStart 4 (CHR ''0'') healthInsurer @ padStart 13 (CHR ''0'') cardNumber"

section \<open>Finger codes\<close>

definition getFingerName :: "int \<Rightarrow> string" where
  \<comment> \<open>\<open>PatientSyncService.getFingerName\<close>, the switch of the synchronize path\<close>
  "getFingerName fingerCode =
     (if fingerCode = 1 then ''M'' @ [CHR 0xED] @ ''nimo Esquerdo''
      else if fingerCode = 2 then ''Anelar Esquerdo''
      else if fingerCode = 3 then ''M'' @ [CHR 0xE9] @ ''dio Esquerdo''
      else if fingerCode = 4 then ''Indicador Esquerdo''
      else if fingerCode = 5 then ''Polegar Esquerdo''
      else if fingerCode = 6 then ''Polegar Direito''
      else if fingerCode = 7 then ''Indicador Direito''
      else if fingerCode = 8 then ''M'' @ [CHR 0xE9] @ ''dio Direito''
      else if fingerCode = 9 then ''Anelar Direito''
      else if fingerCode = 10 then ''M'' @ [CHR 0xED] @ ''nimo Direito''
      else ''Dedo '' @ number_to_string fingerCode)"

definition getFingerNameByCode :: "int \<Rightarrow> string" where
  \<comment> \<open>\<open>getFingerNameByCode\<close> of the import dialog, the switch of the import path\<close>
  "getFingerNameByCode fingerCode =
     (if fingerCode = 1 then ''M'' @ [CHR 0xED] @ ''nimo Esquerdo''
      else if fingerCode = 2 then ''Anelar Esquerdo''
      else if fingerCode = 3 then ''M'' @ [CHR 0xE9] @ ''dio Esquerdo''
      else if fingerCode = 4 then ''Indicador Esquerdo''
      else if fingerCode = 5 then ''Polegar Esquerdo''
      else if fingerCode = 6 then ''Polegar Direito''
      else if fingerCode = 7 then ''Indicador Direito''
      else if fingerCode = 8 then ''M'' @ [CHR 0xE9] @ ''dio Direito''
      else if fingerCode = 9 then ''Anelar Direito''
      else if fingerCode = 10 then ''M'' @ [CHR 0xED] @ ''nimo Direito''
      else ''Dedo '' @ number_to_string fingerCode)"

section \<open>Data model\<close>

text \<open>
  \<open>types/patient.ts\<close> and the interfaces of \<open>patientSyncService.ts\<close>. The field
  \<open>id\<close> of a patient is \<open>patient_id\<close> here and the field \<open>name\<close> of a beneficiary is
  \<open>name_b\<close>, the other fields keep their names. An optional field (\<open>name?: string\<close>) is an
  \<open>option\<close>.
\<close>

record DigitalBiometric =
  finger :: string
  data :: string

record Patient =
  patient_id :: int
  name :: string
  wallet :: string
  facialBiometric :: string
  digitalBiometrics :: "DigitalBiometric list"
  imported :: bool

record SyncResult =
  success :: bool
  message :: string
  updatedPatient :: "Patient option"

record BeneficiarySearchParams =
  guarantor :: string
  modality :: "string option"
  proposal :: "string option"
  contract :: "string option"

record Beneficiary =
  name_b :: "string option"
  fullName :: "string option"
  nome :: "string option"
  healthInsurer :: string
  cardNumber :: string
  completeCardNumber :: "string option"

record Fingerprint =
  fingerCode :: int
  biometry :: string

section \<open>The external directory\<close>

text \<open>
  The directory is reached through \<open>invoke\<close>, whose backend is not part of the
  TypeScript sources. It is a parameter of the model: one response function per command.
  A response is \<open>Inl m\<close> when the promise rejects, where \<open>m\<close> is the text that
  \<open>error.message\<close> renders in the caller's message, and \<open>Inr v\<close> when it resolves with
  \<open>v\<close>. The resolved values are typed \<open>any\<close> in the source; the model gives them the
  shape the code reads: each property the code looks at, a string when present, and for
  \<open>healthInsurer\<close> and \<open>cardNumber\<close>, which the code passes through \<open>String(...)\<close>,
  a string or a number. A list response is \<open>None\<close> when the value is not an array.
\<close>

datatype scalar = Str string | Num int

record raw_beneficiary =
  r_name :: "string option"
  r_cardName :: "string option"
  r_fullName :: "string option"
  r_nome :: "string option"
  r_healthInsurer :: "scalar option"
  r_cardNumber :: "scalar option"
  r_completeCardNumber :: "string option"

record raw_details =
  d_cardName :: "string option"
  d_name :: "string option"
  d_person_name :: "string option"
  d_healthInsurer :: "scalar option"
  d_cardNumber :: "scalar option"
  d_completeCardNumber :: "string option"

record raw_fingerprint =
  fp_fingerCode :: "int option"
  fp_code :: "int option"
  fp_biometry :: "string option"
  fp_data :: "string option"

datatype raw_facial =
    FacialString string
  | FacialObject "string option"  \<comment> \<open>an object, with its \<open>photo\<close> property\<close>
  | FacialOther  \<comment> \<open>\<open>null\<close>, a number, a boolean\<close>

record directory =
  search_beneficiaries :: "BeneficiarySearchParams \<Rightarrow> string + raw_beneficiary list option"
  get_beneficiary_details :: "string \<Rightarrow> string + raw_details"
  get_fingerprints :: "string \<Rightarrow> string + raw_fingerprint list option"
  get_facial_biometry :: "string \<Rightarrow> string + raw_facial"

datatype request =
    SearchRequest BeneficiarySearchParams
  | DetailsRequest string
  | FingerprintsRequest string
  | FacialRequest string

definition scalar_to_string :: "scalar \<Rightarrow> string" where
  \<comment> \<open>\<open>String(v)\<close>\<close>
  "scalar_to_string v = (case v of Str s \<Rightarrow> s | Num n \<Rightarrow> number_to_string n)"

definition truthy_scalar :: "scalar option \<Rightarrow> bool" where
  "truthy_scalar v =
     (case v of None \<Rightarrow> False | Some (Str s) \<Rightarrow> s \<noteq> [] | Some (Num n) \<Rightarrow> n \<noteq> 0)"

definition opt_includes :: "string option \<Rightarrow> string \<Rightarrow> bool" where
  \<comment> \<open>\<open>v?.includes(t)\<close> as a condition: \<open>undefined\<close> is falsy\<close>
  "opt_includes v t = (case v of None \<Rightarrow> False | Some s \<Rightarrow> js_includes s t)"

section \<open>PatientSyncService\<close>

definition normalize_result :: "raw_beneficiary \<Rightarrow> Beneficiary" where
  \<comment> \<open>the body of \<open>list.map((b: any) => ...)\<close> in \<open>searchBeneficiaries\<close>\<close>
  "normalize_result b =
     (let healthInsurerStr = (case r_healthInsurer b of None \<Rightarrow> [] | Some v \<Rightarrow> scalar_to_string v);
          cardNumStr = (case r_cardNumber b of None \<Rightarrow> [] | Some v \<Rightarrow> scalar_to_string v);
          completeCard = (case r_completeCardNumber b of
                            None \<Rightarrow> canonicalWallet healthInsurerStr cardNumStr
                          | Some c \<Rightarrow> c)
      in \<lparr> name_b = Some (first_truthy [r_name b, r_cardName b, r_fullName b, r_nome b] []),
           fullName = None,
           nome = None,
           healthInsurer = healthInsurerStr,
           cardNumber = cardNumStr,
           completeCardNumber = Some completeCard \<rparr>)"

definition matches_term :: "string \<Rightarrow> Beneficiary \<Rightarrow> bool" where
  \<comment> \<open>the predicate of \<open>normalized.filter(b => ...)\<close> in \<open>searchBeneficiaries\<close>\<close>
  "matches_term searchTerm b =
     (opt_includes (map_option toLowerCase (name_b b)) searchTerm \<or>
      js_includes (healthInsurer b) searchTerm \<or>
      js_includes (cardNumber b) searchTerm \<or>
      opt_includes (completeCardNumber b) searchTerm)"

definition searchBeneficiaries :: "directory \<Rightarrow> BeneficiarySearchParams \<Rightarrow> string + Beneficiary list" where
  "searchBeneficiaries d params =
     (case search_beneficiaries d params of
        Inl e \<Rightarrow> Inl e
      | Inr results \<Rightarrow>
          (let list = (case results of Some l \<Rightarrow> l | None \<Rightarrow> []);
               normalized = map normalize_result list
           in if guarantor params \<noteq> []
              then (let searchTerm = toLowerCase (guarantor params)
                    in Inr (filter (matches_term searchTerm) normalized))
              else Inr normalized))"

definition searchBeneficiaries_requests :: "BeneficiarySearchParams \<Rightarrow> request list" where
  \<comment> \<open>what one call of \<open>searchBeneficiaries\<close> sends: its first statement is the \<open>invoke\<close>\<close>
  "searchBeneficiaries_requests params = [SearchRequest params]"

definition getBeneficiaryDetails :: "directory \<Rightarrow> string \<Rightarrow> string + Beneficiary" where
  "getBeneficiaryDetails d cardNumber' =
     (let numericCard = directoryQueryId cardNumber'
      in case get_beneficiary_details d numericCard of
           Inl e \<Rightarrow> Inl e
         | Inr details \<Rightarrow>
             (let name' = first_truthy [d_cardName details, d_name details, d_person_name details] [];
                  healthInsurer' = padStart 4 (CHR ''0'')
                     (if truthy_scalar (d_healthInsurer details)
                      then scalar_to_string (the (d_healthInsurer details)) else []);
                  cardNumberStr =
                     (if truthy_scalar (d_cardNumber details)
                      then scalar_to_string (the (d_cardNumber details)) else cardNumber');
                  completeCardNumber' =
                     first_truthy [d_completeCardNumber details] (healthInsurer' @ cardNumberStr)
              in Inr \<lparr> name_b = Some name',
                       fullName = None,
                       nome = None,
                       healthInsurer = healthInsurer',
                       cardNumber = cardNumberStr,
                       completeCardNumber = Some completeCardNumber' \<rparr>))"

definition getFingerprints :: "directory \<Rightarrow> string \<Rightarrow> Fingerprint list" where
  \<comment> \<open>the \<open>catch\<close> turns a rejection into the empty list\<close>
  "getFingerprints d cardNumber' =
     (case get_fingerprints d cardNumber' of
        Inl e \<Rightarrow> []
      | Inr fingerprints \<Rightarrow>
          (let fingerprintsArray = (case fingerprints of Some l \<Rightarrow> l | None \<Rightarrow> [])
           in map (\<lambda>fp. \<lparr> fingerCode = first_truthy_num [fp_fingerCode fp, fp_code fp] 0,
                          biometry = first_truthy [fp_biometry fp, fp_data fp] [] \<rparr>)
                  fingerprintsArray))"

definition getFacialBiometry :: "directory \<Rightarrow> string \<Rightarrow> string" where
  \<comment> \<open>the \<open>catch\<close> turns a rejection into the empty string\<close>
  "getFacialBiometry d cardNumber' =
     (case get_facial_biometry d cardNumber' of
        Inl e \<Rightarrow> []
      | Inr raw \<Rightarrow>
          (let base64 = (case raw of
                           FacialString s \<Rightarrow> s
                         | FacialObject photo \<Rightarrow> (if truthy photo then the photo else [])
                         | FacialOther \<Rightarrow> []);
               base64' = (if CHR '','' \<in> set base64 then last (split_on (CHR '','') base64)
                          else base64)
           in trim (remove_whitespace base64')))"

definition apiResolvedName :: "Beneficiary \<Rightarrow> string" where
  \<comment> \<open>\<open>(detailsObj.name || detailsObj.fullName || detailsObj.nome || "").trim()\<close>\<close>
  "apiResolvedName detailsObj = trim (first_truthy [name_b detailsObj, fullName detailsObj, nome detailsObj] [])"

definition syncPatient :: "directory \<Rightarrow> Patient \<Rightarrow> SyncResult" where
  "syncPatient d patient =
     (if \<not> imported patient
      then \<lparr> success = False,
             message = ''Apenas pacientes importados podem ser sincronizados.'',
             updatedPatient = None \<rparr>
      else
        (let fingerprints = getFingerprints d (wallet patient);
             facialBiometry = getFacialBiometry d (wallet patient)
         in case getBeneficiaryDetails d (wallet patient) of
              Inl e \<Rightarrow>
                \<lparr> success = False,
                  message = ''Erro ao sincronizar paciente: '' @ e,
                  updatedPatient = None \<rparr>
            | Inr details \<Rightarrow>
                (let digitalBiometrics' =
                       map (\<lambda>fp. \<lparr> finger = getFingerName (fingerCode fp), data = biometry fp \<rparr>)
                           fingerprints;
                     updated = patient
                       \<lparr> name := (if name patient \<noteq> [] then name patient else apiResolvedName details),
                         wallet := first_truthy [completeCardNumber details] (wallet patient),
                         digitalBiometrics := digitalBiometrics',
                         facialBiometric := facialBiometry \<rparr>
                 in \<lparr> success = True,
                      message = ''Paciente '' @ [CHR 0x22] @ name updated @ [CHR 0x22] @
                                '' sincronizado com sucesso!'',
                      updatedPatient = Some updated \<rparr>)))"

text \<open>
  The loop of \<open>syncAllPatients\<close>: one \<open>push\<close> per imported patient. \<open>syncPatient\<close>
  catches every rejection of its requests itself, so the \<open>catch\<close> of the loop body is
  never entered; the pause of 200 ms after each call changes no value and is not part of
  the model.
\<close>

fun syncAll_loop :: "directory \<Rightarrow> Patient list \<Rightarrow> SyncResult list \<Rightarrow> SyncResult list" where
  "syncAll_loop d [] results = results"
| "syncAll_loop d (patient # rest) results = syncAll_loop d rest (results @ [syncPatient d patient])"

definition syncAllPatients :: "directory \<Rightarrow> Patient list \<Rightarrow> SyncResult list" where
  "syncAllPatients d patients =
     (let importedPatients = filter imported patients
      in if length importedPatients = 0
         then [\<lparr> success = False,
                  message = ''Nenhum paciente importado para sincronizar.'',
                  updatedPatient = None \<rparr>]
         else syncAll_loop d importedPatients [])"

section \<open>The import dialog\<close>

text \<open>
  \<open>ImportPatientDialog\<close>: its search handler, and its two import handlers, which hand
  the new patient to \<open>onImport\<close>. A handler's result is the dialog's state after it
  (the message shown, the result list) together with the requests it sent; an import
  handler's result is the patient handed to \<open>onImport\<close>, or the error text shown.
  The state is the one the handler leaves when it returns: the messages it shows while it
  waits are overwritten, and the timer that clears a success message after three seconds
  is outside the model.
\<close>

datatype message_type = Info | Success | Error

record dialog_state =
  loading :: bool
  message_shown :: "(string \<times> message_type) option"
  searchResults :: "Beneficiary list"
  showResults :: bool

record search_form =
  guarantor_input :: string
  modality_input :: string
  contract_input :: string
  proposal_input :: string

definition required_field_message :: string where
  \<comment> \<open>O campo 'Contratante (Guarantor)' e obrigatorio para a busca avancada. (with its accents)\<close>
  "required_field_message =
     ''O campo '' @ [CHR 0x27] @ ''Contratante (Guarantor)'' @ [CHR 0x27] @ '' '' @ [CHR 0xE9] @
     '' obrigat'' @ [CHR 0xF3] @ ''rio para a busca avan'' @ [CHR 0xE7] @ ''ada.''"

definition or_undefined :: "string \<Rightarrow> string option" where
  \<comment> \<open>\<open>s || undefined\<close>\<close>
  "or_undefined s = (if s \<noteq> [] then Some s else None)"

definition dialog_searchBeneficiaries ::
    "directory \<Rightarrow> search_form \<Rightarrow> dialog_state \<Rightarrow> dialog_state \<times> request list" where
  \<comment> \<open>\<open>searchBeneficiaries\<close> of the dialog, which calls the service's method of that name\<close>
  "dialog_searchBeneficiaries d form st =
     (if trim (guarantor_input form) = []
      then (st \<lparr> message_shown := Some (required_field_message, Error) \<rparr>, [])
      else
        (let params = \<lparr> guarantor = trim (guarantor_input form),
                         modality = or_undefined (trim (modality_input form)),
                         proposal = or_undefined (trim (proposal_input form)),
                         contract = or_undefined (trim (contract_input form)) \<rparr>;
             sent = searchBeneficiaries_requests params
         in case searchBeneficiaries d params of
              Inr results \<Rightarrow>
                (if length results > 0
                 then (st \<lparr> searchResults := results, showResults := True,
                            message_shown := Some (nat_to_string (length results) @
                              '' benefici'' @ [CHR 0xE1] @
                              ''rio(s) encontrado(s). Selecione um para continuar.'', Success),
                            loading := False \<rparr>, sent)
                 else (st \<lparr> message_shown := Some (''Nenhum benefici'' @ [CHR 0xE1] @
                              ''rio encontrado com os filtros informados.'', Error),
                            showResults := False, loading := False \<rparr>, sent))
            | Inl e \<Rightarrow>
                (st \<lparr> message_shown := Some (''Erro na busca: '' @ e, Error),
                      showResults := False, loading := False \<rparr>, sent)))"

definition import_biometrics :: "Fingerprint list \<Rightarrow> DigitalBiometric list" where
  \<comment> \<open>\<open>(fingerprints || []).map(fp => ...).filter(b => b.data)\<close>; a fingerprint of
      \<open>getFingerprints\<close> is an object whose \<open>fingerCode\<close> is a number\<close>
  "import_biometrics fingerprints =
     filter (\<lambda>b. data b \<noteq> [])
       (map (\<lambda>fp. \<lparr> finger = getFingerNameByCode (fingerCode fp), data = biometry fp \<rparr>)
            fingerprints)"

definition importPatient :: "directory \<Rightarrow> Beneficiary \<Rightarrow> Patient" where
  "importPatient d beneficiary =
     (let resolvedName = trim (first_truthy [name_b beneficiary, fullName beneficiary, nome beneficiary] []);
          resolvedWallet = first_truthy [completeCardNumber beneficiary]
                             (canonicalWallet (healthInsurer beneficiary) (cardNumber beneficiary));
          fingerprints = getFingerprints d resolvedWallet;
          facialBiometry = getFacialBiometry d resolvedWallet
      in \<lparr> patient_id = 0,
           name = resolvedName,
           wallet = resolvedWallet,
           facialBiometric = facialBiometry,
           digitalBiometrics = import_biometrics fingerprints,
           imported = True \<rparr>)"

definition handleCardSearch :: "directory \<Rightarrow> string \<Rightarrow> string + Patient" where
  "handleCardSearch d cardNumberInput =
     (if trim cardNumberInput = []
      then Inl (''Digite o n'' @ [CHR 0xFA] @ ''mero da carteira para buscar.'')
      else
        (case getBeneficiaryDetails d (trim cardNumberInput) of
           Inl e \<Rightarrow> Inl (''Erro ao buscar paciente: '' @ e)
         | Inr beneficiary \<Rightarrow>
             (let resolvedName = trim (first_truthy [name_b beneficiary, fullName beneficiary, nome beneficiary] []);
                  resolvedWallet = first_truthy [completeCardNumber beneficiary] (trim cardNumberInput);
                  fingerprints = getFingerprints d resolvedWallet;
                  facialBiometry = getFacialBiometry d resolvedWallet
              in Inr \<lparr> patient_id = 0,
                       name = resolvedName,
                       wallet = resolvedWallet,
                       facialBiometric = facialBiometry,
                       digitalBiometrics = import_biometrics fingerprints,
                       imported = True \<rparr>)))"

section \<open>The patient store\<close>

text \<open>
  \<open>PatientManager\<close> owns the list of patients. A handler takes the list and returns
  the list after it. \<open>savePatients\<close> is a parameter: it tells whether the write of a
  list resolves; when it rejects the handler leaves the list as it was. The answer to
  \<open>confirm\<close> is a parameter of the delete handler.
\<close>

definition number_add_one :: "int \<Rightarrow> int" where
  \<comment> \<open>\<open>m + 1\<close> on numbers, for an integer \<open>m\<close> that a double holds. Between \<open>- 2 ^ 53\<close>
      and \<open>2 ^ 53\<close> the sum is exact. Up to \<open>2 ^ 54\<close> in size the doubles are the even
      integers and \<open>m + 1\<close> lies half way between \<open>m\<close> and \<open>m + 2\<close>: it is rounded to
      the one whose mantissa is even, the multiple of 4. Beyond that the nearest double is
      \<open>m\<close> itself.\<close>
  "number_add_one m =
     (if - 9007199254740992 \<le> m \<and> m < 9007199254740992 then m + 1
      else if - 18014398509481984 < m \<and> m < 18014398509481984 \<and> m mod 4 = 2 then m + 2
      else m)"

definition maxId :: "Patient list \<Rightarrow> int" where
  \<comment> \<open>\<open>patients.reduce((max, p) => Math.max(max, p.id), 0)\<close>\<close>
  "maxId patients = foldl (\<lambda>m p. max m (patient_id p)) 0 patients"

definition handleSavePatient :: "(Patient list \<Rightarrow> bool) \<Rightarrow> Patient list \<Rightarrow> Patient \<Rightarrow> Patient list" where
  "handleSavePatient savePatients patients patient =
     (let updatedPatients =
            (if patient_id patient = 0
             then patients @ [patient \<lparr> patient_id := number_add_one (maxId patients) \<rparr>]
             else map (\<lambda>p. if patient_id p = patient_id patient then patient else p) patients)
      in if savePatients updatedPatients then updatedPatients else patients)"

definition handleImportPatient :: "(Patient list \<Rightarrow> bool) \<Rightarrow> Patient list \<Rightarrow> Patient \<Rightarrow> Patient list" where
  "handleImportPatient savePatients patients patient =
     (let updatedPatients = patients @ [patient \<lparr> patient_id := number_add_one (maxId patients) \<rparr>]
      in if savePatients updatedPatients then updatedPatients else patients)"


section \<open>Substrings\<close>

text \<open>
  What it means for a string to appear as a substring of another, stated directly; the
  program's \<open>includes\<close> is shown below to decide it.
\<close>

definition appears_in :: "string \<Rightarrow> string \<Rightarrow> bool" where
  "appears_in t s = (\<exists>pre post. s = pre @ t @ post)"

section \<open>Example inputs\<close>

text \<open>Concrete patients and directories, used to run the definitions.\<close>

definition patient_maria :: Patient where
  "patient_maria =
     \<lparr> patient_id = 7, name = ''Maria'', wallet = ''00010000000000042'',
       facialBiometric = ''AAAA'',
       digitalBiometrics = [\<lparr> finger = ''Polegar Direito'', data = ''QUJD'' \<rparr>],
       imported = True \<rparr>"

definition details_maria :: raw_details where
  "details_maria =
     \<lparr> d_cardName = None, d_name = Some ''Maria Souza'', d_person_name = None,
       d_healthInsurer = Some (Num 1), d_cardNumber = Some (Str ''0000000000042''),
       d_completeCardNumber = Some ''00010000000000042'' \<rparr>"

definition fingerprint_thumb :: raw_fingerprint where
  "fingerprint_thumb =
     \<lparr> fp_fingerCode = Some 6, fp_code = None, fp_biometry = Some ''RUZH'', fp_data = None \<rparr>"

definition fingerprint_blank :: raw_fingerprint where
  "fingerprint_blank =
     \<lparr> fp_fingerCode = Some 1, fp_code = None, fp_biometry = Some [], fp_data = None \<rparr>"

definition directory_ok :: directory where
  "directory_ok =
     \<lparr> search_beneficiaries = (\<lambda>params. Inr (Some [])),
       get_beneficiary_details = (\<lambda>q. Inr details_maria),
       get_fingerprints = (\<lambda>w. Inr (Some [fingerprint_thumb])),
       get_facial_biometry = (\<lambda>w. Inr (FacialString ''data:image/png;base64,iVBOR w0K'')) \<rparr>"

definition directory_facial_rejects :: directory where
  "directory_facial_rejects =
     directory_ok \<lparr> get_facial_biometry := (\<lambda>w. Inl ''connection refused'') \<rparr>"

definition directory_detail_rejects :: directory where
  "directory_detail_rejects =
     directory_ok \<lparr> get_beneficiary_details := (\<lambda>q. Inl ''connection refused'') \<rparr>"

definition directory_blank_fingerprint :: directory where
  "directory_blank_fingerprint =
     directory_ok \<lparr> get_fingerprints := (\<lambda>w. Inr (Some [fingerprint_blank, fingerprint_thumb])) \<rparr>"

definition patient_two :: Patient where
  "patient_two =
     \<lparr> patient_id = 8, name = [], wallet = ''00010000000000043'',
       facialBiometric = [], digitalBiometrics = [], imported = True \<rparr>"

definition patient_three :: Patient where
  "patient_three =
     \<lparr> patient_id = 9, name = ''Rui'', wallet = ''00010000000000044'',
       facialBiometric = [], digitalBiometrics = [], imported = True \<rparr>"

definition patient_local :: Patient where
  "patient_local =
     \<lparr> patient_id = 3, name = ''Ana'', wallet = ''00020000000000001'',
       facialBiometric = [], digitalBiometrics = [], imported = False \<rparr>"

definition directory_second_rejects :: directory where
  "directory_second_rejects =
     directory_ok \<lparr> get_beneficiary_details :=
       (\<lambda>q. if q = ''43'' then Inl ''not found'' else Inr details_maria) \<rparr>"

definition beneficiary_maria :: Beneficiary where
  "beneficiary_maria =
     \<lparr> name_b = Some ''Maria Souza'', fullName = None, nome = None,
       healthInsurer = ''0001'', cardNumber = ''0000000000042'',
       completeCardNumber = Some ''00010000000000042'' \<rparr>"




definition raw_joao :: raw_beneficiary where
  "raw_joao =
     \<lparr> r_name = Some (''Jo'' @ [CHR 0xE3] @ ''o Silva''), r_cardName = None, r_fullName = None,
       r_nome = None, r_healthInsurer = Some (Str ''1''), r_cardNumber = Some (Str ''42''),
       r_completeCardNumber = None \<rparr>"

definition raw_upper :: raw_beneficiary where
  "raw_upper =
     \<lparr> r_name = Some ''Carlos Lima'', r_cardName = None, r_fullName = None,
       r_nome = None, r_healthInsurer = Some (Str ''AB12''), r_cardNumber = Some (Num 42),
       r_completeCardNumber = None \<rparr>"

definition directory_search :: directory where
  "directory_search =
     directory_ok \<lparr> search_beneficiaries := (\<lambda>params. Inr (Some [raw_joao, raw_upper])) \<rparr>"

definition params_joao :: BeneficiarySearchParams where
  "params_joao =
     \<lparr> guarantor = ''JO'' @ [CHR 0xC3] @ ''O'', modality = None, proposal = None, contract = None \<rparr>"

definition params_blank :: BeneficiarySearchParams where
  "params_blank = \<lparr> guarantor = [], modality = None, proposal = None, contract = None \<rparr>"

definition params_ab :: BeneficiarySearchParams where
  "params_ab = \<lparr> guarantor = ''ab'', modality = None, proposal = None, contract = None \<rparr>"

definition blank_form :: search_form where
  "blank_form =
     \<lparr> guarantor_input = ''   '', modality_input = ''A'', contract_input = [], proposal_input = [] \<rparr>"

definition idle_dialog :: dialog_state where
  "idle_dialog = \<lparr> loading = False, message_shown = None, searchResults = [], showResults = False \<rparr>"

definition save_always :: "Patient list \<Rightarrow> bool" where
  "save_always patients = True"

definition draft_patient :: Patient where
  "draft_patient =
     \<lparr> patient_id = 0, name = ''Ana'', wallet = ''00020000000000001'',
       facialBiometric = [], digitalBiometrics = [], imported = False \<rparr>"

definition store_at_limit :: "Patient list" where
  "store_at_limit = [draft_patient \<lparr> patient_id := 9007199254740992 \<rparr>]"


section \<open>Properties of the identifier and finger-code functions\<close>

lemma replicate_num: "replicate (numeral k) x = x # replicate (pred_numeral k) x"
  by (simp add: numeral_eq_Suc)

lemma strip_leading_zeros_idem: "strip_leading_zeros (strip_leading_zeros s) = strip_leading_zeros s"
  by (simp add: strip_leading_zeros_def dropWhile_idem)

lemma length_strip_leading_zeros: "length (strip_leading_zeros s) \<le> length s"
  by (simp add: strip_leading_zeros_def length_dropWhile_le)

lemma slice_last_short: "length s \<le> n \<Longrightarrow> slice_last n s = s"
  by (simp add: slice_last_def)

lemma length_slice_last: "length (slice_last n s) = min n (length s)"
  by (simp add: slice_last_def)

lemma strip_leading_zeros_decomp:
  "replicate (length (takeWhile (\<lambda>c. c = CHR ''0'') s)) (CHR ''0'') @ strip_leading_zeros s = s"
proof -
  have "takeWhile (\<lambda>c. c = CHR ''0'') s = replicate (length (takeWhile (\<lambda>c. c = CHR ''0'') s)) (CHR ''0'')"
    by (induction s) auto
  then show ?thesis
    unfolding strip_leading_zeros_def by (metis takeWhile_dropWhile_id)
qed

lemma strip_leading_zeros_head: "take 1 (strip_leading_zeros s) \<noteq> ''0''"
  unfolding strip_leading_zeros_def
  by (induction s) auto

text \<open>
  C9. \<open>directoryQueryId\<close> is what remains of the last 13 characters of the wallet
  once their leading zeros are removed: putting some zeros back in front of it gives those
  13 characters, and it does not start with a zero. Applying it twice is the same as
  applying it once.
\<close>

theorem directoryQueryId_idempotent:
  "directoryQueryId (directoryQueryId w) = directoryQueryId w \<and>
   (\<exists>n. replicate n (CHR ''0'') @ directoryQueryId w = drop (length w - 13) w) \<and>
   take 1 (directoryQueryId w) \<noteq> ''0''"
proof (intro conjI)
  have "length (directoryQueryId w) \<le> 13"
    unfolding directoryQueryId_def
    using length_strip_leading_zeros [of "slice_last 13 w"] length_slice_last [of 13 w]
    by simp
  then have "slice_last 13 (directoryQueryId w) = directoryQueryId w"
    by (rule slice_last_short)
  then show "directoryQueryId (directoryQueryId w) = directoryQueryId w"
    using strip_leading_zeros_idem [of "slice_last 13 w"]
    by (simp add: directoryQueryId_def)
next
  show "\<exists>n. replicate n (CHR ''0'') @ directoryQueryId w = drop (length w - 13) w"
    using strip_leading_zeros_decomp [of "slice_last 13 w"]
    unfolding directoryQueryId_def slice_last_def by blast
next
  show "take 1 (directoryQueryId w) \<noteq> ''0''"
    unfolding directoryQueryId_def by (rule strip_leading_zeros_head)
qed

theorem directoryQueryId_idempotent_witness:
  "directoryQueryId ''00010000000000042'' = ''42'' \<and>
   directoryQueryId (directoryQueryId ''00010000000000042'') = ''42''"
  using directoryQueryId_idempotent [of "''00010000000000042''"]
  by (simp add: directoryQueryId_def slice_last_def strip_leading_zeros_def)

text \<open>
  C7. The finger label of the synchronize path, \<open>getFingerName\<close>, and the one of the
  import path, \<open>getFingerNameByCode\<close>, agree on every integer. The codes 1 to 10 have
  the fixed labels, from the left little finger (1) to the left thumb (5) and from the
  right thumb (6) to the right little finger (10); every other integer \<open>c\<close>, zero and
  the negative ones included, gives \<open>Dedo c\<close>.
\<close>

theorem fingerLabel_total:
  "(\<forall>c. getFingerName c = getFingerNameByCode c) \<and>
   getFingerName 1 = ''M'' @ [CHR 0xED] @ ''nimo Esquerdo'' \<and>
   getFingerName 2 = ''Anelar Esquerdo'' \<and>
   getFingerName 3 = ''M'' @ [CHR 0xE9] @ ''dio Esquerdo'' \<and>
   getFingerName 4 = ''Indicador Esquerdo'' \<and>
   getFingerName 5 = ''Polegar Esquerdo'' \<and>
   getFingerName 6 = ''Polegar Direito'' \<and>
   getFingerName 7 = ''Indicador Direito'' \<and>
   getFingerName 8 = ''M'' @ [CHR 0xE9] @ ''dio Direito'' \<and>
   getFingerName 9 = ''Anelar Direito'' \<and>
   getFingerName 10 = ''M'' @ [CHR 0xED] @ ''nimo Direito'' \<and>
   (\<forall>c. c < 1 \<or> 10 < c \<longrightarrow> getFingerName c = ''Dedo '' @ number_to_string c)"
  by (simp add: getFingerName_def getFingerNameByCode_def)

theorem fingerLabel_total_witness:
  "getFingerName 0 = ''Dedo 0'' \<and> getFingerNameByCode 0 = ''Dedo 0'' \<and>
   getFingerName (- 3) = ''Dedo -3'' \<and> getFingerNameByCode (- 3) = ''Dedo -3'' \<and>
   getFingerName 11 = ''Dedo 11'' \<and> getFingerNameByCode 11 = ''Dedo 11''"
proof -
  have n0: "number_to_string 0 = ''0''" by (simp add: number_to_string_def)
  have n3: "number_to_string (- 3) = ''-3''" by (simp add: number_to_string_def)
  have n11: "number_to_string 11 = ''11''" by (simp add: number_to_string_def)
  have eq: "getFingerNameByCode c = getFingerName c" for c
    using fingerLabel_total by presburger
  have dflt: "c < 1 \<or> 10 < c \<Longrightarrow> getFingerName c = ''Dedo '' @ number_to_string c" for c
    using fingerLabel_total by blast
  show ?thesis
    using dflt [of 0] dflt [of "- 3"] dflt [of 11] by (simp add: eq n0 n3 n11)
qed

section \<open>Properties of synchronisation\<close>

lemma getBeneficiaryDetails_Inl:
  "get_beneficiary_details d (directoryQueryId w) = Inl e \<Longrightarrow> getBeneficiaryDetails d w = Inl e"
  by (simp add: getBeneficiaryDetails_def Let_def)

lemma getBeneficiaryDetails_Inr:
  "get_beneficiary_details d (directoryQueryId w) = Inr r \<Longrightarrow> \<exists>b. getBeneficiaryDetails d w = Inr b"
  by (simp add: getBeneficiaryDetails_def Let_def)

lemma getFacialBiometry_rejected:
  "get_facial_biometry d w = Inl e \<Longrightarrow> getFacialBiometry d w = []"
  by (simp add: getFacialBiometry_def)

lemma getFingerprints_rejected:
  "get_fingerprints d w = Inl e \<Longrightarrow> getFingerprints d w = []"
  by (simp add: getFingerprints_def)

lemma syncPatient_not_imported:
  "\<not> imported p \<Longrightarrow> syncPatient d p =
     \<lparr> success = False, message = ''Apenas pacientes importados podem ser sincronizados.'',
       updatedPatient = None \<rparr>"
  by (simp add: syncPatient_def)

lemma syncPatient_rejected:
  "imported p \<Longrightarrow> getBeneficiaryDetails d (wallet p) = Inl e \<Longrightarrow>
   syncPatient d p =
     \<lparr> success = False, message = ''Erro ao sincronizar paciente: '' @ e, updatedPatient = None \<rparr>"
  by (simp add: syncPatient_def Let_def)

lemma syncPatient_resolved:
  "imported p \<Longrightarrow> getBeneficiaryDetails d (wallet p) = Inr details \<Longrightarrow>
   syncPatient d p =
     (let updated = p
        \<lparr> name := (if name p \<noteq> [] then name p else apiResolvedName details),
          wallet := first_truthy [completeCardNumber details] (wallet p),
          digitalBiometrics :=
            map (\<lambda>fp. \<lparr> finger = getFingerName (fingerCode fp), data = biometry fp \<rparr>)
                (getFingerprints d (wallet p)),
          facialBiometric := getFacialBiometry d (wallet p) \<rparr>
      in \<lparr> success = True,
           message = ''Paciente '' @ [CHR 0x22] @ name updated @ [CHR 0x22] @
                     '' sincronizado com sucesso!'',
           updatedPatient = Some updated \<rparr>)"
  by (simp add: syncPatient_def Let_def)

lemma syncPatient_success_cases:
  assumes "success (syncPatient d p)"
  obtains details where "imported p" and "getBeneficiaryDetails d (wallet p) = Inr details"
proof -
  have imp: "imported p"
    using assms by (cases "imported p") (simp_all add: syncPatient_not_imported)
  show thesis
  proof (cases "getBeneficiaryDetails d (wallet p)")
    case (Inl e)
    with imp assms show thesis by (simp add: syncPatient_rejected)
  next
    case (Inr details)
    with imp that show thesis by blast
  qed
qed

text \<open>
  C1 (as the code has it). For an imported patient, \<open>syncPatient\<close> fails exactly when
  the detail request rejects, and then returns \<open>success = False\<close> with the error's
  message and no updated patient. A rejected facial or fingerprint request is absorbed by
  \<open>getFacialBiometry\<close> and \<open>getFingerprints\<close>: when the detail request resolves,
  \<open>syncPatient\<close> succeeds, with an empty facial biometric when the facial request
  rejected and an empty fingerprint list when the fingerprint request rejected.
\<close>

theorem syncPatient_fails_only_on_detail:
  assumes "imported p"
  shows "(\<forall>e. get_beneficiary_details d (directoryQueryId (wallet p)) = Inl e \<longrightarrow>
            syncPatient d p =
              \<lparr> success = False, message = ''Erro ao sincronizar paciente: '' @ e,
                updatedPatient = None \<rparr>) \<and>
         (\<forall>r. get_beneficiary_details d (directoryQueryId (wallet p)) = Inr r \<longrightarrow>
            success (syncPatient d p) \<and>
            (\<exists>u. updatedPatient (syncPatient d p) = Some u \<and>
                 (\<forall>e. get_facial_biometry d (wallet p) = Inl e \<longrightarrow> facialBiometric u = []) \<and>
                 (\<forall>e. get_fingerprints d (wallet p) = Inl e \<longrightarrow> digitalBiometrics u = [])))"
proof (intro conjI allI impI)
  fix e assume "get_beneficiary_details d (directoryQueryId (wallet p)) = Inl e"
  then have "getBeneficiaryDetails d (wallet p) = Inl e"
    by (rule getBeneficiaryDetails_Inl)
  with assms show "syncPatient d p =
      \<lparr> success = False, message = ''Erro ao sincronizar paciente: '' @ e, updatedPatient = None \<rparr>"
    by (rule syncPatient_rejected)
next
  fix r assume r: "get_beneficiary_details d (directoryQueryId (wallet p)) = Inr r"
  then obtain b where b: "getBeneficiaryDetails d (wallet p) = Inr b"
    using getBeneficiaryDetails_Inr by blast
  note res = syncPatient_resolved [OF assms b]
  show "success (syncPatient d p)"
    by (simp add: res Let_def)
  show "\<exists>u. updatedPatient (syncPatient d p) = Some u \<and>
            (\<forall>e. get_facial_biometry d (wallet p) = Inl e \<longrightarrow> facialBiometric u = []) \<and>
            (\<forall>e. get_fingerprints d (wallet p) = Inl e \<longrightarrow> digitalBiometrics u = [])"
    by (auto simp add: res Let_def getFacialBiometry_rejected getFingerprints_rejected)
qed

lemma sync_facial_rejects_value:
  "syncPatient directory_facial_rejects patient_maria =
     \<lparr> success = True,
       message = ''Paciente '' @ [CHR 0x22] @ ''Maria'' @ [CHR 0x22] @ '' sincronizado com sucesso!'',
       updatedPatient = Some (patient_maria
         \<lparr> facialBiometric := [],
           digitalBiometrics := [\<lparr> finger = ''Polegar Direito'', data = ''RUZH'' \<rparr>] \<rparr>) \<rparr>"
  by (simp add: syncPatient_def Let_def getBeneficiaryDetails_def getFingerprints_def
      getFacialBiometry_def directory_facial_rejects_def directory_ok_def patient_maria_def
      details_maria_def fingerprint_thumb_def getFingerName_def truthy_scalar_def
      scalar_to_string_def number_to_string_def padStart_def)

text \<open>
  The facial request rejects while the detail and fingerprint requests resolve:
  \<open>syncPatient\<close> reports success, and the updated patient has lost the facial biometric
  it had.
\<close>

theorem syncPatient_facial_rejects_counterexample:
  "get_facial_biometry directory_facial_rejects (wallet patient_maria) = Inl ''connection refused'' \<and>
   success (syncPatient directory_facial_rejects patient_maria) \<and>
   updatedPatient (syncPatient directory_facial_rejects patient_maria) =
     Some (patient_maria
       \<lparr> facialBiometric := [],
         digitalBiometrics := [\<lparr> finger = ''Polegar Direito'', data = ''RUZH'' \<rparr>] \<rparr>) \<and>
   facialBiometric patient_maria = ''AAAA''"
  by (simp add: sync_facial_rejects_value)
     (simp add: directory_facial_rejects_def patient_maria_def)

theorem syncPatient_fails_only_on_detail_witness:
  "imported patient_maria \<and>
   syncPatient directory_detail_rejects patient_maria =
     \<lparr> success = False, message = ''Erro ao sincronizar paciente: connection refused'',
       updatedPatient = None \<rparr> \<and>
   success (syncPatient directory_facial_rejects patient_maria)"
proof -
  have imp: "imported patient_maria"
    by (simp add: patient_maria_def)
  have rej: "get_beneficiary_details directory_detail_rejects (directoryQueryId (wallet patient_maria))
             = Inl ''connection refused''"
    by (simp add: directory_detail_rejects_def)
  have res: "get_beneficiary_details directory_facial_rejects (directoryQueryId (wallet patient_maria))
             = Inr details_maria"
    by (simp add: directory_facial_rejects_def directory_ok_def)
  show ?thesis
    using imp rej res
      syncPatient_fails_only_on_detail [OF imp, of directory_detail_rejects]
      syncPatient_fails_only_on_detail [OF imp, of directory_facial_rejects]
    by simp
qed


lemma padStart_nonempty: "0 < n \<Longrightarrow> padStart n c s \<noteq> []"
  by (cases s) (simp_all add: padStart_def)

lemma first_truthy_nonempty: "dflt \<noteq> [] \<Longrightarrow> first_truthy vs dflt \<noteq> []"
  by (induction vs) (auto split: option.splits list.splits)

lemma getBeneficiaryDetails_completeCardNumber:
  "getBeneficiaryDetails d w = Inr b \<Longrightarrow> truthy (completeCardNumber b)"
  by (auto simp add: getBeneficiaryDetails_def Let_def truthy_def first_truthy_nonempty
      padStart_nonempty simp del: first_truthy.simps split: sum.splits)

lemma details_maria_resolved:
  "get_beneficiary_details d (directoryQueryId w) = Inr details_maria \<Longrightarrow>
   getBeneficiaryDetails d w = Inr beneficiary_maria"
  by (simp add: getBeneficiaryDetails_def details_maria_def beneficiary_maria_def Let_def
      truthy_scalar_def scalar_to_string_def number_to_string_def padStart_def replicate_num)









text \<open>
  C10. When \<open>syncPatient\<close> succeeds, the updated patient has the id and the imported
  flag of the patient given: it is that patient with nothing but the name, the wallet, the
  fingerprints and the facial biometric rewritten.
\<close>

theorem syncPatient_frame:
  assumes "success (syncPatient d p)"
  shows "\<exists>u. updatedPatient (syncPatient d p) = Some u \<and>
             patient_id u = patient_id p \<and> imported u = imported p \<and>
             u = p \<lparr> name := name u, wallet := wallet u,
                     digitalBiometrics := digitalBiometrics u,
                     facialBiometric := facialBiometric u \<rparr>"
proof -
  from assms obtain details where imp: "imported p"
    and det: "getBeneficiaryDetails d (wallet p) = Inr details"
    by (rule syncPatient_success_cases)
  show ?thesis
    by (simp add: syncPatient_resolved [OF imp det] Let_def)
qed

theorem syncPatient_frame_witness:
  "success (syncPatient directory_ok patient_three) \<and>
   (\<exists>u. updatedPatient (syncPatient directory_ok patient_three) = Some u \<and>
        patient_id u = 9 \<and> imported u)"
proof -
  have d: "getBeneficiaryDetails directory_ok (wallet patient_three) = Inr beneficiary_maria"
    by (rule details_maria_resolved) (simp add: directory_ok_def)
  have s: "success (syncPatient directory_ok patient_three)"
    using d by (simp add: syncPatient_def Let_def patient_three_def)
  have i: "patient_id patient_three = 9" "imported patient_three"
    by (simp_all add: patient_three_def)
  from syncPatient_frame [OF s] i s show ?thesis by auto
qed

text \<open>
  C4. \<open>syncAllPatients\<close> returns one result for each imported patient, in the order of
  the list given: the result of \<open>syncPatient\<close> on that patient, failed or not, so a
  failure for one patient does not stop the others. When no patient of the list is imported
  the result is the single failed result that says so.
\<close>

lemma syncAll_loop_map: "syncAll_loop d ps results = results @ map (syncPatient d) ps"
  by (induction ps arbitrary: results) simp_all

theorem syncAllPatients_one_result_each:
  "syncAllPatients d patients =
     (if filter imported patients = []
      then [\<lparr> success = False, message = ''Nenhum paciente importado para sincronizar.'',
               updatedPatient = None \<rparr>]
      else map (syncPatient d) (filter imported patients))"
  by (simp add: syncAllPatients_def Let_def syncAll_loop_map)

theorem syncAllPatients_one_result_each_witness:
  "map success (syncAllPatients directory_second_rejects
      [patient_maria, patient_local, patient_two, patient_three]) = [True, False, True] \<and>
   syncAllPatients directory_second_rejects [patient_local] =
     [\<lparr> success = False, message = ''Nenhum paciente importado para sincronizar.'',
        updatedPatient = None \<rparr>]"
proof -
  have i: "imported patient_maria" "\<not> imported patient_local" "imported patient_two"
    "imported patient_three"
    by (simp_all add: patient_maria_def patient_local_def patient_two_def patient_three_def)
  have q: "directoryQueryId (wallet patient_maria) = ''42''"
    "directoryQueryId (wallet patient_two) = ''43''"
    "directoryQueryId (wallet patient_three) = ''44''"
    by (simp_all add: patient_maria_def patient_two_def patient_three_def directoryQueryId_def
        slice_last_def strip_leading_zeros_def)
  have r1: "get_beneficiary_details directory_second_rejects (directoryQueryId (wallet patient_maria))
            = Inr details_maria"
    and r2: "get_beneficiary_details directory_second_rejects (directoryQueryId (wallet patient_two))
            = Inl ''not found''"
    and r3: "get_beneficiary_details directory_second_rejects (directoryQueryId (wallet patient_three))
            = Inr details_maria"
    by (simp_all add: q directory_second_rejects_def)
  have s1: "success (syncPatient directory_second_rejects patient_maria)"
    by (simp add: syncPatient_resolved [OF i(1) details_maria_resolved [OF r1]] Let_def)
  have s2: "\<not> success (syncPatient directory_second_rejects patient_two)"
    by (simp add: syncPatient_rejected [OF i(3) getBeneficiaryDetails_Inl [OF r2]])
  have s3: "success (syncPatient directory_second_rejects patient_three)"
    by (simp add: syncPatient_resolved [OF i(4) details_maria_resolved [OF r3]] Let_def)
  show ?thesis
    using syncAllPatients_one_result_each [of directory_second_rejects
        "[patient_maria, patient_local, patient_two, patient_three]"]
      syncAllPatients_one_result_each [of directory_second_rejects "[patient_local]"]
    by (simp add: i s1 s2 s3)
qed

section \<open>Properties of the import path\<close>

lemma import_biometrics_data: "b \<in> set (import_biometrics fingerprints) \<Longrightarrow> data b \<noteq> []"
  by (simp add: import_biometrics_def)

lemma importPatient_data: "b \<in> set (digitalBiometrics (importPatient d beneficiary)) \<Longrightarrow> data b \<noteq> []"
  by (simp add: importPatient_def Let_def import_biometrics_data)

lemma handleCardSearch_data:
  "handleCardSearch d c = Inr p \<Longrightarrow> b \<in> set (digitalBiometrics p) \<Longrightarrow> data b \<noteq> []"
  by (auto simp add: handleCardSearch_def Let_def import_biometrics_data
      split: if_splits sum.splits)

lemma getFingerprints_blank:
  "getFingerprints directory_blank_fingerprint w =
     [\<lparr> fingerCode = 1, biometry = [] \<rparr>, \<lparr> fingerCode = 6, biometry = ''RUZH'' \<rparr>]"
  by (simp add: getFingerprints_def directory_blank_fingerprint_def fingerprint_thumb_def
      fingerprint_blank_def)

text \<open>
  C2 (where the code departs from it). The directory returns two fingerprints, the first
  with an empty \<open>biometry\<close>. The import path drops the empty one; \<open>syncPatient\<close>
  succeeds and keeps it, so its updated patient has a fingerprint whose \<open>data\<close> is empty.
\<close>

theorem syncPatient_keeps_empty_data:
  "getFingerprints directory_blank_fingerprint (wallet patient_maria) =
     [\<lparr> fingerCode = 1, biometry = [] \<rparr>, \<lparr> fingerCode = 6, biometry = ''RUZH'' \<rparr>] \<and>
   map data (digitalBiometrics (importPatient directory_blank_fingerprint beneficiary_maria)) =
     [''RUZH''] \<and>
   success (syncPatient directory_blank_fingerprint patient_maria) \<and>
   map_option (map data \<circ> digitalBiometrics)
     (updatedPatient (syncPatient directory_blank_fingerprint patient_maria)) =
     Some [[], ''RUZH'']"
proof -
  have i: "imported patient_maria"
    by (simp add: patient_maria_def)
  have "get_beneficiary_details directory_blank_fingerprint (directoryQueryId (wallet patient_maria))
        = Inr details_maria"
    by (simp add: directory_blank_fingerprint_def directory_ok_def)
  then have d: "getBeneficiaryDetails directory_blank_fingerprint (wallet patient_maria)
        = Inr beneficiary_maria"
    by (rule details_maria_resolved)
  have "map data (digitalBiometrics (importPatient directory_blank_fingerprint beneficiary_maria)) =
     [''RUZH'']"
    by (simp add: importPatient_def import_biometrics_def Let_def getFingerprints_blank)
  moreover have "success (syncPatient directory_blank_fingerprint patient_maria)"
    by (simp add: syncPatient_resolved [OF i d] Let_def)
  moreover have "map_option (map data \<circ> digitalBiometrics)
     (updatedPatient (syncPatient directory_blank_fingerprint patient_maria)) = Some [[], ''RUZH'']"
    by (simp add: syncPatient_resolved [OF i d] Let_def getFingerprints_blank)
  ultimately show ?thesis
    by (simp add: getFingerprints_blank)
qed

section \<open>Properties of the search\<close>

lemma take_eq_iff_prefix: "take (length t) s = t \<longleftrightarrow> (\<exists>post. s = t @ post)"
  by (metis append_eq_conv_conj)

lemma js_includes_iff: "js_includes s t \<longleftrightarrow> appears_in t s"
proof (induction s)
  case Nil
  then show ?case by (auto simp add: appears_in_def)
next
  case (Cons c s)
  have "appears_in t (c # s) \<longleftrightarrow> (\<exists>post. c # s = t @ post) \<or> appears_in t s"
    unfolding appears_in_def
  proof
    assume "\<exists>pre post. c # s = pre @ t @ post"
    then obtain pre post where e: "c # s = pre @ t @ post" by blast
    show "(\<exists>post. c # s = t @ post) \<or> (\<exists>pre post. s = pre @ t @ post)"
    proof (cases pre)
      case Nil
      with e show ?thesis by auto
    next
      case (Cons a pre')
      with e have "s = pre' @ t @ post" by simp
      then show ?thesis by blast
    qed
  next
    assume "(\<exists>post. c # s = t @ post) \<or> (\<exists>pre post. s = pre @ t @ post)"
    then show "\<exists>pre post. c # s = pre @ t @ post"
    proof
      assume "\<exists>post. c # s = t @ post"
      then obtain post where "c # s = [] @ t @ post" by auto
      then show ?thesis by blast
    next
      assume "\<exists>pre post. s = pre @ t @ post"
      then obtain pre post where "c # s = (c # pre) @ t @ post" by auto
      then show ?thesis by blast
    qed
  qed
  with Cons show ?case
    using take_eq_iff_prefix [of t "c # s"] by simp
qed

text \<open>
  C5 (as the code has it). The check for a blank guarantor is made by the search handler of
  the dialog: when the guarantor field of the form is blank (empty once trimmed), the handler
  stops with the required-field error message and has sent no request. The service's
  \<open>searchBeneficiaries\<close> makes no such check: given an empty guarantor it sends the
  request and returns every normalised record, unfiltered.
\<close>

theorem search_blank_guarantor:
  "(trim (guarantor_input form) = [] \<longrightarrow>
      dialog_searchBeneficiaries d form st =
        (st \<lparr> message_shown := Some (required_field_message, Error) \<rparr>, [])) \<and>
   (guarantor params = [] \<longrightarrow>
      searchBeneficiaries_requests params = [SearchRequest params] \<and>
      searchBeneficiaries d params =
        (case search_beneficiaries d params of
           Inl e \<Rightarrow> Inl e
         | Inr results \<Rightarrow>
             Inr (map normalize_result (case results of Some l \<Rightarrow> l | None \<Rightarrow> []))))"
  by (simp add: dialog_searchBeneficiaries_def searchBeneficiaries_def
      searchBeneficiaries_requests_def Let_def split: sum.splits)

theorem search_blank_guarantor_witness:
  "trim (guarantor_input blank_form) = [] \<and>
   dialog_searchBeneficiaries directory_search blank_form idle_dialog =
     (\<lparr> loading = False, message_shown = Some (required_field_message, Error),
        searchResults = [], showResults = False \<rparr>, []) \<and>
   guarantor params_blank = [] \<and>
   searchBeneficiaries directory_search params_blank =
     Inr [normalize_result raw_joao, normalize_result raw_upper]"
proof -
  have b: "trim (guarantor_input blank_form) = []"
    by (simp add: blank_form_def trim_def is_space_def)
  have g: "guarantor params_blank = []"
    by (simp add: params_blank_def)
  have r: "search_beneficiaries directory_search params_blank = Inr (Some [raw_joao, raw_upper])"
    by (simp add: directory_search_def)
  show ?thesis
    using b g r
      search_blank_guarantor [of blank_form directory_search idle_dialog params_blank]
    by (simp add: idle_dialog_def)
qed

text \<open>
  The service is called with an empty guarantor: the request goes out and the records of the
  directory come back, with no error.
\<close>

theorem search_service_unguarded_counterexample:
  "guarantor params_blank = [] \<and>
   searchBeneficiaries_requests params_blank = [SearchRequest params_blank] \<and>
   search_beneficiaries directory_search params_blank = Inr (Some [raw_joao, raw_upper]) \<and>
   searchBeneficiaries directory_search params_blank =
     Inr [normalize_result raw_joao, normalize_result raw_upper]"
  by (simp add: searchBeneficiaries_def searchBeneficiaries_requests_def params_blank_def
      directory_search_def)

lemma search_sends_request:
  "trim (guarantor_input form) \<noteq> [] \<Longrightarrow>
   snd (dialog_searchBeneficiaries d form st) =
     [SearchRequest \<lparr> guarantor = trim (guarantor_input form),
                      modality = or_undefined (trim (modality_input form)),
                      proposal = or_undefined (trim (proposal_input form)),
                      contract = or_undefined (trim (contract_input form)) \<rparr>]"
  by (simp add: dialog_searchBeneficiaries_def searchBeneficiaries_requests_def Let_def
      split: sum.splits)

lemma normalize_result_fields:
  "\<exists>nm cc. name_b (normalize_result r) = Some nm \<and> completeCardNumber (normalize_result r) = Some cc"
  by (simp add: normalize_result_def Let_def)

text \<open>
  C6 (as the code has it). For a guarantor that is not empty, the service keeps a normalised
  record exactly when the lower-cased guarantor appears in the lower-cased name, or in the
  health insurer, the card number or the complete card number as they are: only the name is
  compared without regard to case.
\<close>

theorem search_filter_case:
  assumes "guarantor params \<noteq> []"
    and "search_beneficiaries d params = Inr results"
  shows "\<exists>kept.
           searchBeneficiaries d params = Inr kept \<and>
           kept = filter (matches_term (toLowerCase (guarantor params)))
                    (map normalize_result (case results of Some l \<Rightarrow> l | None \<Rightarrow> [])) \<and>
           (\<forall>b \<in> set (map normalize_result (case results of Some l \<Rightarrow> l | None \<Rightarrow> [])).
              \<exists>nm cc. name_b b = Some nm \<and> completeCardNumber b = Some cc \<and>
                (b \<in> set kept \<longleftrightarrow>
                   appears_in (toLowerCase (guarantor params)) (toLowerCase nm) \<or>
                   appears_in (toLowerCase (guarantor params)) (healthInsurer b) \<or>
                   appears_in (toLowerCase (guarantor params)) (cardNumber b) \<or>
                   appears_in (toLowerCase (guarantor params)) cc))"
proof -
  let ?t = "toLowerCase (guarantor params)"
  let ?normalized = "map normalize_result (case results of Some l \<Rightarrow> l | None \<Rightarrow> [])"
  have res: "searchBeneficiaries d params = Inr (filter (matches_term ?t) ?normalized)"
    using assms by (simp add: searchBeneficiaries_def Let_def)
  have each: "\<exists>nm cc. name_b b = Some nm \<and> completeCardNumber b = Some cc \<and>
      (b \<in> set (filter (matches_term ?t) ?normalized) \<longleftrightarrow>
         appears_in ?t (toLowerCase nm) \<or> appears_in ?t (healthInsurer b) \<or>
         appears_in ?t (cardNumber b) \<or> appears_in ?t cc)"
    if "b \<in> set ?normalized" for b
  proof -
    from that obtain r where "b = normalize_result r" by auto
    then obtain nm cc where f: "name_b b = Some nm" "completeCardNumber b = Some cc"
      using normalize_result_fields [of r] by auto
    have "matches_term ?t b \<longleftrightarrow>
         appears_in ?t (toLowerCase nm) \<or> appears_in ?t (healthInsurer b) \<or>
         appears_in ?t (cardNumber b) \<or> appears_in ?t cc"
      by (simp add: matches_term_def opt_includes_def f js_includes_iff)
    with that show ?thesis
      by (intro exI [of _ nm] exI [of _ cc]) (simp add: f)
  qed
  show ?thesis
  proof (intro exI conjI)
    show "searchBeneficiaries d params = Inr (filter (matches_term ?t) ?normalized)"
      by (rule res)
    show "filter (matches_term ?t) ?normalized = filter (matches_term ?t) ?normalized"
      by (rule refl)
    show "\<forall>b \<in> set ?normalized.
            \<exists>nm cc. name_b b = Some nm \<and> completeCardNumber b = Some cc \<and>
              (b \<in> set (filter (matches_term ?t) ?normalized) \<longleftrightarrow>
                 appears_in ?t (toLowerCase nm) \<or> appears_in ?t (healthInsurer b) \<or>
                 appears_in ?t (cardNumber b) \<or> appears_in ?t cc)"
      using each by (rule ballI)
  qed
qed

lemma lower_joao: "toLowerCase (guarantor params_joao) = ''jo'' @ [CHR 0xE3] @ ''o''"
  by (simp add: params_joao_def toLowerCase_def lower_char_def upper_letters_def lower_letters_def)

lemma lower_ab: "toLowerCase (guarantor params_ab) = ''ab''"
  by (simp add: params_ab_def toLowerCase_def lower_char_def upper_letters_def lower_letters_def)

lemma lower_name_joao:
  "toLowerCase [CHR ''J'', CHR ''o'', CHR 0xE3, CHR ''o'', CHR '' '', CHR ''S'', CHR ''i'', CHR ''l'', CHR ''v'', CHR ''a'']
   = [CHR ''j'', CHR ''o'', CHR 0xE3, CHR ''o'', CHR '' '', CHR ''s'', CHR ''i'', CHR ''l'', CHR ''v'', CHR ''a'']"
  by (simp add: toLowerCase_def lower_char_def upper_letters_def lower_letters_def)

lemma lower_name_carlos: "toLowerCase ''Carlos Lima'' = ''carlos lima''"
  by (simp add: toLowerCase_def lower_char_def upper_letters_def lower_letters_def)

lemma lower_AB12: "toLowerCase ''AB12'' = ''ab12''"
  by (simp add: toLowerCase_def lower_char_def upper_letters_def lower_letters_def)

lemma normalize_joao:
  "normalize_result raw_joao =
     \<lparr> name_b = Some (''Jo'' @ [CHR 0xE3] @ ''o Silva''), fullName = None, nome = None,
       healthInsurer = ''1'', cardNumber = ''42'',
       completeCardNumber = Some ''00010000000000042'' \<rparr>"
  by (simp add: normalize_result_def raw_joao_def scalar_to_string_def canonicalWallet_def
      padStart_def replicate_num Let_def)

lemma normalize_upper:
  "normalize_result raw_upper =
     \<lparr> name_b = Some ''Carlos Lima'', fullName = None, nome = None,
       healthInsurer = ''AB12'', cardNumber = ''42'',
       completeCardNumber = Some ''AB120000000000042'' \<rparr>"
  by (simp add: normalize_result_def raw_upper_def scalar_to_string_def number_to_string_def
      canonicalWallet_def padStart_def replicate_num Let_def)

lemma matches_joao: "matches_term (''jo'' @ [CHR 0xE3] @ ''o'') (normalize_result raw_joao)"
  unfolding normalize_joao
  by (simp add: matches_term_def opt_includes_def lower_name_joao)

lemma not_matches_joao_upper: "\<not> matches_term (''jo'' @ [CHR 0xE3] @ ''o'') (normalize_result raw_upper)"
  unfolding normalize_upper
  by (simp add: matches_term_def opt_includes_def lower_name_carlos)

lemma not_matches_ab_joao: "\<not> matches_term ''ab'' (normalize_result raw_joao)"
  unfolding normalize_joao
  by (simp add: matches_term_def opt_includes_def lower_name_joao)

lemma not_matches_ab_upper: "\<not> matches_term ''ab'' (normalize_result raw_upper)"
  unfolding normalize_upper
  by (simp add: matches_term_def opt_includes_def lower_name_carlos)

lemma search_directory_search:
  "guarantor params \<noteq> [] \<Longrightarrow>
   searchBeneficiaries directory_search params =
     Inr (filter (matches_term (toLowerCase (guarantor params)))
            [normalize_result raw_joao, normalize_result raw_upper])"
  by (simp add: searchBeneficiaries_def directory_search_def Let_def)

lemma search_joao_value:
  "searchBeneficiaries directory_search params_joao = Inr [normalize_result raw_joao]"
proof -
  have "guarantor params_joao \<noteq> []" by (simp add: params_joao_def)
  then show ?thesis
    using matches_joao not_matches_joao_upper
    by (simp add: search_directory_search lower_joao)
qed

theorem search_filter_case_witness:
  "guarantor params_joao \<noteq> [] \<and>
   search_beneficiaries directory_search params_joao = Inr (Some [raw_joao, raw_upper]) \<and>
   searchBeneficiaries directory_search params_joao = Inr [normalize_result raw_joao] \<and>
   completeCardNumber (normalize_result raw_joao) = Some ''00010000000000042''"
proof -
  have g: "guarantor params_joao \<noteq> []"
    by (simp add: params_joao_def)
  have r: "search_beneficiaries directory_search params_joao = Inr (Some [raw_joao, raw_upper])"
    by (simp add: directory_search_def)
  have c: "completeCardNumber (normalize_result raw_joao) = Some ''00010000000000042''"
    by (simp add: normalize_joao)
  from search_filter_case [OF g r] obtain kept where
    "searchBeneficiaries directory_search params_joao = Inr kept"
    by blast
  with search_joao_value have "searchBeneficiaries directory_search params_joao = Inr [normalize_result raw_joao]"
    by simp
  with g r c show ?thesis by simp
qed

text \<open>
  A record whose health insurer contains the guarantor in capital letters is dropped.
\<close>

theorem search_filter_case_counterexample:
  "guarantor params_ab = ''ab'' \<and>
   search_beneficiaries directory_search params_ab = Inr (Some [raw_joao, raw_upper]) \<and>
   healthInsurer (normalize_result raw_upper) = ''AB12'' \<and>
   js_includes (toLowerCase (healthInsurer (normalize_result raw_upper)))
     (toLowerCase (guarantor params_ab)) \<and>
   searchBeneficiaries directory_search params_ab = Inr []"
proof -
  have g: "guarantor params_ab = ''ab''" by (simp add: params_ab_def)
  have r: "search_beneficiaries directory_search params_ab = Inr (Some [raw_joao, raw_upper])"
    by (simp add: directory_search_def)
  have h: "healthInsurer (normalize_result raw_upper) = ''AB12''"
    by (simp add: normalize_upper)
  have i: "js_includes (toLowerCase (healthInsurer (normalize_result raw_upper)))
             (toLowerCase (guarantor params_ab))"
    unfolding h lower_ab lower_AB12 by simp
  have "guarantor params_ab \<noteq> []" by (simp add: g)
  then have s: "searchBeneficiaries directory_search params_ab = Inr []"
    using not_matches_ab_joao not_matches_ab_upper
    by (simp add: search_directory_search lower_ab)
  from g r h i s show ?thesis by simp
qed

section \<open>Properties of the patient store\<close>





lemma two_to_53: "(2::int) ^ 53 = 9007199254740992"
  by simp









text \<open>
  At \<open>2 ^ 53\<close> the addition is no longer exact: the new patient gets the id that is
  already in the store.
\<close>

lemma store_id_rounds_at_limit:
  "map patient_id (handleSavePatient save_always store_at_limit draft_patient) =
     [9007199254740992, 9007199254740992]"
  by (simp add: store_at_limit_def handleSavePatient_def save_always_def draft_patient_def
      maxId_def number_add_one_def Let_def)

end
